theory Spec2Isabelle
  imports Complex_Main "HOL-Library.Sublist"
begin

section \<open>Common data\<close>

text \<open>
  A JavaScript \<^verbatim>\<open>Error\<close> object is identified by its message. Every \<^verbatim>\<open>throw\<close> of
  the sources is a left injection of the result type \<open>error + 'a\<close>.
\<close>

datatype error = Error string

section \<open>Token lifecycle (backend/src/services/authService.ts)\<close>

text \<open>
  The stored fields of the \<^verbatim>\<open>User\<close> document that the token manager reads and writes.
  Instants are milliseconds since the epoch (the value of \<^verbatim>\<open>Date.getTime()\<close>).
\<close>

record user =
  accessToken :: string
  refreshToken :: "string option"
  tokenExpiry :: int

text \<open>The credentials object returned by the OAuth provider on refresh.\<close>

record credentials =
  access_token :: string
  refresh_token :: "string option"
  expiry_date :: int

text \<open>
  The mutable state: the user collection, the credentials held by the shared
  \<^verbatim>\<open>oauth2Client\<close>, and the sequence of refresh requests sent to the provider so far
  (each entry is the refresh token that was presented).
\<close>

record auth_state =
  users :: "string \<rightharpoonup> user"
  client_refresh_token :: "string option"
  refresh_calls :: "string list"

text \<open>
  The surroundings of one call: the clock, the provider's answer to a refresh request,
  and whether the database driver throws on \<^verbatim>\<open>findById\<close> or \<^verbatim>\<open>save\<close>.
\<close>

record auth_env =
  clock :: int
  oauth_refresh :: "string \<Rightarrow> error + credentials"
  find_throws :: "error option"
  save_throws :: "error option"

text \<open>\<^verbatim>\<open>!s\<close> for an optional string: undefined and the empty string are falsy.\<close>

definition falsy_str :: "string option \<Rightarrow> bool" where
  "falsy_str s = (case s of None \<Rightarrow> True | Some t \<Rightarrow> t = [])"

definition refreshAccessToken ::
  "auth_env \<Rightarrow> string \<Rightarrow> auth_state \<Rightarrow> (error + credentials) \<times> auth_state" where
  "refreshAccessToken env rt st =
     (let st1 = st\<lparr>client_refresh_token := Some rt,
                    refresh_calls := refresh_calls st @ [rt]\<rparr>
      in case oauth_refresh env rt of
           Inl e \<Rightarrow> (Inl (Error ''Failed to refresh access token''), st1)
         | Inr c \<Rightarrow> (Inr c, st1))"

text \<open>The body of the \<^verbatim>\<open>try\<close> block of \<^verbatim>\<open>getValidAccessToken\<close>.\<close>

definition getValidAccessToken_try ::
  "auth_env \<Rightarrow> string \<Rightarrow> auth_state \<Rightarrow> (error + string) \<times> auth_state" where
  "getValidAccessToken_try env userId st =
     (case find_throws env of
        Some e \<Rightarrow> (Inl e, st)
      | None \<Rightarrow>
         (case users st userId of
            None \<Rightarrow> (Inl (Error ''User not found''), st)
          | Some u \<Rightarrow>
             (let fiveMinutesFromNow = clock env + 5 * 60 * 1000 in
              if tokenExpiry u > fiveMinutesFromNow then (Inr (accessToken u), st)
              else if falsy_str (refreshToken u)
              then (Inl (Error ''No refresh token available''), st)
              else
                (case refreshAccessToken env (the (refreshToken u)) st of
                   (Inl e, st1) \<Rightarrow> (Inl e, st1)
                 | (Inr newTokens, st1) \<Rightarrow>
                    (let u1 = u\<lparr>accessToken := access_token newTokens\<rparr>;
                         u2 = (if falsy_str (refresh_token newTokens) then u1
                               else u1\<lparr>refreshToken := refresh_token newTokens\<rparr>);
                         u3 = u2\<lparr>tokenExpiry := expiry_date newTokens\<rparr>
                     in case save_throws env of
                          Some e \<Rightarrow> (Inl e, st1)
                        | None \<Rightarrow>
                           (Inr (accessToken u3),
                            st1\<lparr>users := (users st1)(userId \<mapsto> u3)\<rparr>))))))"

text \<open>The \<^verbatim>\<open>catch\<close> clause replaces whatever was thrown by one fixed error.\<close>

definition getValidAccessToken ::
  "auth_env \<Rightarrow> string \<Rightarrow> auth_state \<Rightarrow> (error + string) \<times> auth_state" where
  "getValidAccessToken env userId st =
     (case getValidAccessToken_try env userId st of
        (Inl e, st1) \<Rightarrow> (Inl (Error ''Failed to get valid access token''), st1)
      | (Inr tok, st1) \<Rightarrow> (Inr tok, st1))"

section \<open>JavaScript values\<close>

text \<open>
  The values that \<^verbatim>\<open>JSON.parse\<close> can produce, together with \<^verbatim>\<open>undefined\<close> for a
  property that is not there. Numbers are reals. An object is the list of its
  properties; the first binding of a name is its value.
\<close>

datatype jsvalue =
    JUndefined
  | JNull
  | JBool bool
  | JNum real
  | JStr string
  | JArr "jsvalue list"
  | JObj "(string \<times> jsvalue) list"

text \<open>Truthiness, the negation of what \<^verbatim>\<open>!v\<close> computes. Arrays and objects are always truthy.\<close>

fun truthy :: "jsvalue \<Rightarrow> bool" where
  "truthy JUndefined = False"
| "truthy JNull = False"
| "truthy (JBool b) = b"
| "truthy (JNum r) = (r \<noteq> 0)"
| "truthy (JStr s) = (s \<noteq> [])"
| "truthy (JArr xs) = True"
| "truthy (JObj ps) = True"

text \<open>Property read \<^verbatim>\<open>obj.name\<close> on an object given by its property list.\<close>

definition get_prop :: "(string \<times> jsvalue) list \<Rightarrow> string \<Rightarrow> jsvalue" where
  "get_prop ps name = (case map_of ps name of None \<Rightarrow> JUndefined | Some v \<Rightarrow> v)"

section \<open>Conversation service (class OpenAI)\<close>

text \<open>
  An intent as the classifier prompt prescribes it: an action name, a numeric confidence
  and a parameter object. A classifier answer that is JSON of another shape is not
  represented; on an answer without parameter object \<^verbatim>\<open>checkIfNeedsMoreInfo\<close> throws a
  \<^verbatim>\<open>TypeError\<close>, which the \<^verbatim>\<open>catch\<close> clause of \<^verbatim>\<open>generateResponse\<close> answers with the
  apology.
\<close>

record intent =
  action :: string
  confidence :: real
  parameters :: "(string \<times> jsvalue) list"

record chat_message =
  role :: string
  content :: string

text \<open>
  A conversation context. \<^verbatim>\<open>currentTask\<close> and \<^verbatim>\<open>pendingData\<close> are properties that
  \<^verbatim>\<open>handleFollowUp\<close> reads and resets; a fresh context does not have them.
\<close>

record conversation =
  messages :: "chat_message list"
  currentTask :: jsvalue
  pendingData :: jsvalue

text \<open>What \<^verbatim>\<open>generateResponse\<close> returns; its \<^verbatim>\<open>catch\<close> branch leaves \<^verbatim>\<open>needsMoreInfo\<close> out.\<close>

record ai_response =
  response :: string
  intent :: intent
  needsMoreInfo :: "bool option"

text \<open>What \<^verbatim>\<open>handleFollowUp\<close> returns; one of its branches returns the reply text only.\<close>

record follow_up =
  fu_response :: string
  fu_action :: "string option"
  fu_parameters :: "(string \<times> jsvalue) list option"

text \<open>The event resource sent to the calendar, and the event the calendar answers with.\<close>

record event_data =
  summary :: jsvalue
  description :: jsvalue
  start_dateTime :: int
  end_dateTime :: int
  attendees :: "jsvalue list"
  location :: jsvalue

record created_event =
  ev_summary :: string
  ev_description :: string
  ev_start :: int
  ev_end :: int
  ev_location :: string

text \<open>The result object of an intent handler.\<close>

record action_result =
  success :: bool
  message :: string

text \<open>
  The mutable state of the assistant: the conversation map of the \<^verbatim>\<open>OpenAI\<close> object,
  the insert requests that reached the calendar, the invitations handed to the mailer,
  and the intents for which \<^verbatim>\<open>handleIntent\<close> was entered, each in order of occurrence.
\<close>

record assistant_state =
  conversations :: "string \<rightharpoonup> conversation"
  calendar_inserts :: "event_data list"
  invitations :: "(jsvalue list \<times> created_event) list"
  dispatched :: "intent list"

text \<open>
  The collaborators outside the sources under study, as functions of what they are
  called with. A completion answers with the content of its first choice (\<open>None\<close> for
  \<^verbatim>\<open>null\<close>) or throws; \<open>json_parse\<close> is \<^verbatim>\<open>JSON.parse\<close> restricted to intents, with
  \<open>None\<close> for a \<^verbatim>\<open>SyntaxError\<close>. The five handlers other than
  \<^verbatim>\<open>handleScheduleEvent\<close> are taken as given: they return a result or throw.
\<close>

record assistant_env =
  classify_completion :: "string \<Rightarrow> error + string option"
  json_parse :: "string \<Rightarrow> intent option"
  reply_completion :: "chat_message list \<Rightarrow> error + string option"
  json_stringify :: "jsvalue \<times> jsvalue \<Rightarrow> string"
  db_getOrCreateConversation :: "string \<Rightarrow> string \<Rightarrow> error + string"
  db_addMessage :: "string \<Rightarrow> chat_message \<Rightarrow> error option"
  time_now :: int
  tz_offset :: int
  calendar_insert :: "event_data \<Rightarrow> error + created_event"
  send_invitation :: "jsvalue list \<Rightarrow> created_event \<Rightarrow> error option"
  handleCheckAvailability :: "(string \<times> jsvalue) list \<Rightarrow> string \<Rightarrow> error + action_result"
  handleGetEvents :: "(string \<times> jsvalue) list \<Rightarrow> string \<Rightarrow> error + action_result"
  handleSendEmail :: "(string \<times> jsvalue) list \<Rightarrow> string \<Rightarrow> error + action_result"
  handleCancelEvent :: "(string \<times> jsvalue) list \<Rightarrow> string \<Rightarrow> error + action_result"
  handleUpdateEvent :: "(string \<times> jsvalue) list \<Rightarrow> string \<Rightarrow> error + action_result"

text \<open>The system message a fresh context starts with (its first sentence stands for the text).\<close>

definition system_prompt :: string where
  "system_prompt =
     ''You are a helpful AI voice assistant for calendar and email management.''"

definition initial_context :: conversation where
  "initial_context =
     \<lparr>messages = [\<lparr>role = ''system'', content = system_prompt\<rparr>],
      currentTask = JUndefined, pendingData = JUndefined\<rparr>"

definition contextId :: "string \<Rightarrow> string \<Rightarrow> string" where
  "contextId userId sessionId = userId @ ''-'' @ sessionId"

definition getContext ::
  "string \<Rightarrow> string \<Rightarrow> assistant_state \<Rightarrow> conversation \<times> assistant_state" where
  "getContext userId sessionId st =
     (case conversations st (contextId userId sessionId) of
        None \<Rightarrow>
          (initial_context,
           st\<lparr>conversations :=
                 (conversations st)(contextId userId sessionId \<mapsto> initial_context)\<rparr>)
      | Some c \<Rightarrow> (c, st))"

text \<open>The value both \<^verbatim>\<open>catch\<close> branches fall back to, and which the default JSON text denotes.\<close>

definition fallback_intent :: intent where
  "fallback_intent = \<lparr>action = ''none'', confidence = 0, parameters = []\<rparr>"

text \<open>
  The \<^verbatim>\<open>try\<close> block of \<^verbatim>\<open>analyzeIntent\<close>: the completion call, then \<^verbatim>\<open>JSON.parse\<close>. An
  empty or \<^verbatim>\<open>null\<close> content is replaced by the default JSON text, which denotes
  \<open>fallback_intent\<close>.
\<close>

definition analyzeIntent_try :: "assistant_env \<Rightarrow> string \<Rightarrow> error + intent" where
  "analyzeIntent_try env userInput =
     (case classify_completion env userInput of
        Inl e \<Rightarrow> Inl e
      | Inr result \<Rightarrow>
         (if falsy_str result then Inr fallback_intent
          else (case json_parse env (the result) of
                  None \<Rightarrow> Inl (Error ''SyntaxError'')
                | Some i \<Rightarrow> Inr i)))"

text \<open>\<^verbatim>\<open>analyzeIntent\<close>: the \<^verbatim>\<open>catch\<close> clause logs the error and returns the fallback.\<close>

definition analyzeIntent :: "assistant_env \<Rightarrow> string \<Rightarrow> intent" where
  "analyzeIntent env userInput =
     (case analyzeIntent_try env userInput of
        Inl e \<Rightarrow> fallback_intent
      | Inr i \<Rightarrow> i)"

definition checkIfNeedsMoreInfo :: "intent \<Rightarrow> bool" where
  "checkIfNeedsMoreInfo i =
     (if action i = ''schedule_event''
      then \<not> truthy (get_prop (parameters i) ''title'') \<or> \<not> truthy (get_prop (parameters i) ''dateTime'')
      else if action i = ''check_availability''
      then \<not> truthy (get_prop (parameters i) ''date'')
      else if action i = ''send_email''
      then \<not> truthy (get_prop (parameters i) ''recipients'') \<or> \<not> truthy (get_prop (parameters i) ''subject'')
      else False)"

text \<open>\<^verbatim>\<open>xs.slice(-n)\<close> for positive \<open>n\<close>: the last \<open>n\<close> elements, or all of a shorter list.\<close>

definition slice_last :: "nat \<Rightarrow> 'a list \<Rightarrow> 'a list" where
  "slice_last n xs = drop (length xs - n) xs"

text \<open>The trimming block at the end of \<^verbatim>\<open>generateResponse\<close>.\<close>

definition trimMessages :: "chat_message list \<Rightarrow> chat_message list" where
  "trimMessages ms =
     (if length ms > 10
      then (case find (\<lambda>msg. role msg = ''system'') ms of
              Some systemMsg \<Rightarrow> [systemMsg]
            | None \<Rightarrow> []) @ slice_last 9 ms
      else ms)"

definition apology :: string where
  "apology =
     ''I apologize, but I encountered an error processing your request. Please try again.''"

text \<open>
  The \<^verbatim>\<open>try\<close> block of \<^verbatim>\<open>generateResponse\<close>. The user message is stored before the
  completion is requested, so it stays in the context when the completion throws.
\<close>

definition generateResponse_try ::
  "assistant_env \<Rightarrow> string \<Rightarrow> string \<Rightarrow> string \<Rightarrow> (jsvalue \<times> jsvalue) option \<Rightarrow>
   assistant_state \<Rightarrow> (error + ai_response) \<times> assistant_state" where
  "generateResponse_try env userInput userId sessionId ctxt st =
     (let key = contextId userId sessionId;
          (conversationContext, st0) = getContext userId sessionId st;
          c1 = conversationContext\<lparr>messages :=
                 messages conversationContext @ [\<lparr>role = ''user'', content = userInput\<rparr>]\<rparr>;
          st1 = st0\<lparr>conversations := (conversations st0)(key \<mapsto> c1)\<rparr>;
          i = analyzeIntent env userInput;
          systemMessage = (case ctxt of None \<Rightarrow> []
                           | Some c \<Rightarrow> ''Current context: '' @ json_stringify env c)
      in case reply_completion env
                (messages c1 @
                 (if systemMessage \<noteq> [] then [\<lparr>role = ''system'', content = systemMessage\<rparr>]
                  else [])) of
           Inl e \<Rightarrow> (Inl e, st1)
         | Inr cnt \<Rightarrow>
             (let assistantResponse =
                    (if falsy_str cnt
                     then ''I apologize, but I had trouble processing that request.''
                     else the cnt);
                  c2 = c1\<lparr>messages :=
                         trimMessages
                           (messages c1 @ [\<lparr>role = ''assistant'', content = assistantResponse\<rparr>])\<rparr>
              in (Inr \<lparr>response = assistantResponse, intent = i,
                       needsMoreInfo = Some (checkIfNeedsMoreInfo i)\<rparr>,
                  st1\<lparr>conversations := (conversations st1)(key \<mapsto> c2)\<rparr>)))"

text \<open>\<^verbatim>\<open>generateResponse\<close>: the \<^verbatim>\<open>catch\<close> clause logs the error and returns an apology.\<close>

definition generateResponse ::
  "assistant_env \<Rightarrow> string \<Rightarrow> string \<Rightarrow> string \<Rightarrow> (jsvalue \<times> jsvalue) option \<Rightarrow>
   assistant_state \<Rightarrow> ai_response \<times> assistant_state" where
  "generateResponse env userInput userId sessionId ctxt st =
     (case generateResponse_try env userInput userId sessionId ctxt st of
        (Inl e, st1) \<Rightarrow>
          (\<lparr>response = apology, intent = fallback_intent, needsMoreInfo = None\<rparr>, st1)
      | (Inr r, st1) \<Rightarrow> (r, st1))"

text \<open>\<^verbatim>\<open>!response.needsMoreInfo\<close>: an absent flag is falsy.\<close>

definition flag_set :: "bool option \<Rightarrow> bool" where
  "flag_set f = (case f of None \<Rightarrow> False | Some b \<Rightarrow> b)"

definition handleFollowUp ::
  "assistant_env \<Rightarrow> string \<Rightarrow> string \<Rightarrow> string \<Rightarrow> assistant_state \<Rightarrow>
   follow_up \<times> assistant_state" where
  "handleFollowUp env userInput userId sessionId st =
     (let key = contextId userId sessionId;
          (c, st0) = getContext userId sessionId st
      in if truthy (currentTask c)
         then
           (let (r, st1) = generateResponse env userInput userId sessionId
                             (Some (currentTask c, pendingData c)) st0
            in if confidence (intent r) > 7 / 10 \<and> \<not> flag_set (needsMoreInfo r)
               then
                 (\<lparr>fu_response = response r, fu_action = Some (action (intent r)),
                   fu_parameters = Some (parameters (intent r))\<rparr>,
                  st1\<lparr>conversations :=
                        (conversations st1)(key :=
                           map_option (\<lambda>c'. c'\<lparr>currentTask := JUndefined,
                                                 pendingData := JUndefined\<rparr>)
                             (conversations st1 key))\<rparr>)
               else
                 (\<lparr>fu_response = response r, fu_action = None, fu_parameters = None\<rparr>, st1))
         else
           (let (r, st1) = generateResponse env userInput userId sessionId None st0
            in (\<lparr>fu_response = response r, fu_action = Some (action (intent r)),
                 fu_parameters = Some (parameters (intent r))\<rparr>, st1)))"

section \<open>Calendar service: parseDateTime (class GoogleCalendarService)\<close>

text \<open>
  A \<^verbatim>\<open>Date\<close> object is its time value in milliseconds since the epoch, or \<open>None\<close> when
  it is an invalid date. Every operation that stores a time value clips it to the range
  of \<^verbatim>\<open>Date\<close>. Local time is UTC plus the offset \<open>tz_offset\<close> of the host, taken as
  fixed over the days one call spans (no daylight-saving change). Strings are sequences
  of 8-bit characters; the character classes below are the ASCII ones, so the white
  space beyond ASCII that the regular expression also accepts (the no-break space among
  it) is not represented.
\<close>

definition msPerDay :: int where
  "msPerDay = 86400000"

definition msPerHour :: int where
  "msPerHour = 3600000"

definition msPerMinute :: int where
  "msPerMinute = 60000"

definition TimeClip :: "int \<Rightarrow> int option" where
  "TimeClip t = (if \<bar>t\<bar> \<le> 8640000000000000 then Some t else None)"

text \<open>\<^verbatim>\<open>d.getDay()\<close>: the day of the week of the local date, Sunday being 0.\<close>

definition getDay :: "int \<Rightarrow> int \<Rightarrow> int" where
  "getDay tz t = ((t + tz) div msPerDay + 4) mod 7"

text \<open>\<^verbatim>\<open>d.setDate(d.getDate() + n)\<close>: the local date moves by \<open>n\<close> days, the time of day stays.\<close>

definition setDate_plus :: "int \<Rightarrow> int option \<Rightarrow> int option" where
  "setDate_plus n d = (case d of None \<Rightarrow> None | Some t \<Rightarrow> TimeClip (t + n * msPerDay))"

text \<open>\<^verbatim>\<open>d.setHours(h, m, 0, 0)\<close>: the local date stays, the local time of day is replaced.\<close>

definition setHours :: "int \<Rightarrow> int \<Rightarrow> int \<Rightarrow> int option \<Rightarrow> int option" where
  "setHours tz h m d =
     (case d of
        None \<Rightarrow> None
      | Some t \<Rightarrow>
          TimeClip (((t + tz) div msPerDay) * msPerDay + h * msPerHour + m * msPerMinute - tz))"

definition is_digit :: "char \<Rightarrow> bool" where
  "is_digit c = (48 \<le> (of_char c :: nat) \<and> (of_char c :: nat) \<le> 57)"

definition is_space :: "char \<Rightarrow> bool" where
  "is_space c = ((of_char c :: nat) \<in> {9, 10, 11, 12, 13, 32})"

definition lower_char :: "char \<Rightarrow> char" where
  "lower_char c =
     (if 65 \<le> (of_char c :: nat) \<and> (of_char c :: nat) \<le> 90
      then char_of ((of_char c :: nat) + 32) else c)"

definition toLowerCase :: "string \<Rightarrow> string" where
  "toLowerCase s = map lower_char s"

text \<open>\<^verbatim>\<open>s.includes(sub)\<close>: \<open>sub\<close> occurs in \<open>s\<close> as a contiguous piece.\<close>

fun str_includes :: "string \<Rightarrow> string \<Rightarrow> bool" where
  "str_includes [] sub = (sub = [])"
| "str_includes (c # cs) sub = (prefix sub (c # cs) \<or> str_includes cs sub)"

text \<open>\<^verbatim>\<open>parseInt\<close> on a string of decimal digits.\<close>

definition parseInt :: "string \<Rightarrow> int" where
  "parseInt ds = foldl (\<lambda>a c. 10 * a + (int (of_char c) - 48)) 0 ds"

text \<open>
  The regular expression \<^verbatim>\<open>/(\d{1,2}):?(\d{2})?\s*(am|pm)?/\<close> tried at a position that holds
  a digit. Everything after the first digit is optional and every quantifier is greedy, so
  the first alternative the matcher tries at each step succeeds and no backtracking takes
  place. The result is the three capture groups.
\<close>

definition match_at :: "string \<Rightarrow> string \<times> string option \<times> string option" where
  "match_at s =
     (let (g1, r1) = (case s of
                        d1 # d2 # r \<Rightarrow> (if is_digit d2 then ([d1, d2], r) else ([d1], d2 # r))
                      | _ \<Rightarrow> (take 1 s, drop 1 s));
          r2 = (case r1 of c # r \<Rightarrow> (if c = CHR '':'' then r else r1) | [] \<Rightarrow> []);
          (g2, r3) = (case r2 of
                        a # b # r \<Rightarrow> (if is_digit a \<and> is_digit b then (Some [a, b], r)
                                       else (None, r2))
                      | _ \<Rightarrow> (None, r2));
          r4 = dropWhile is_space r3;
          g3 = (if prefix ''am'' r4 then Some ''am''
                else if prefix ''pm'' r4 then Some ''pm'' else None)
      in (g1, g2, g3))"

text \<open>\<^verbatim>\<open>lowerStr.match(...)\<close>: the leftmost match starts at the first digit; without a digit there is none.\<close>

definition time_match :: "string \<Rightarrow> (string \<times> string option \<times> string option) option" where
  "time_match s =
     (case dropWhile (\<lambda>c. \<not> is_digit c) s of [] \<Rightarrow> None | d # ds \<Rightarrow> Some (match_at (d # ds)))"

definition days :: "string list" where
  "days = [''sunday'', ''monday'', ''tuesday'', ''wednesday'', ''thursday'', ''friday'',
           ''saturday'']"

text \<open>\<^verbatim>\<open>xs.findIndex(p)\<close>: the index of the first element that satisfies \<open>p\<close>, or -1.\<close>

fun findIndex :: "('a \<Rightarrow> bool) \<Rightarrow> 'a list \<Rightarrow> int" where
  "findIndex p [] = - 1"
| "findIndex p (x # xs) =
     (if p x then 0 else (let i = findIndex p xs in if i < 0 then - 1 else i + 1))"

text \<open>The first part of \<^verbatim>\<open>parseDateTime\<close>: the date the text names, at the clock's time of day.\<close>

definition resolveDate :: "assistant_env \<Rightarrow> string \<Rightarrow> int option" where
  "resolveDate env lowerStr =
     (let now = time_now env in
      if str_includes lowerStr ''tomorrow'' then setDate_plus 1 (Some now)
      else if str_includes lowerStr ''next week'' then setDate_plus 7 (Some now)
      else if str_includes lowerStr ''monday'' \<or> str_includes lowerStr ''tuesday'' \<or>
              str_includes lowerStr ''wednesday'' \<or> str_includes lowerStr ''thursday'' \<or>
              str_includes lowerStr ''friday'' \<or> str_includes lowerStr ''saturday'' \<or>
              str_includes lowerStr ''sunday''
      then
        (let targetDay = findIndex (\<lambda>day. str_includes lowerStr day) days;
             daysUntilTarget = (targetDay - getDay (tz_offset env) now + 7) mod 7
         in setDate_plus daysUntilTarget (Some now))
      else Some now)"

record interval =
  iv_start :: int
  iv_end :: int

text \<open>
  \<^verbatim>\<open>parseDateTime\<close>. The two results are the instants whose ISO renderings the source
  returns; \<^verbatim>\<open>toISOString\<close> throws a \<^verbatim>\<open>RangeError\<close> on an invalid date.
\<close>

definition parseDateTime :: "assistant_env \<Rightarrow> string \<Rightarrow> error + interval" where
  "parseDateTime env dateTimeString =
     (let lowerStr = toLowerCase dateTimeString;
          startDate0 = resolveDate env lowerStr;
          startDate =
            (case time_match lowerStr of
               Some (g1, g2, g3) \<Rightarrow>
                 (let hours0 = parseInt g1;
                      minutes = parseInt (case g2 of None \<Rightarrow> ''0'' | Some m \<Rightarrow> m);
                      hours = (if g3 = Some ''pm'' \<and> hours0 \<noteq> 12 then hours0 + 12
                               else if g3 = Some ''am'' \<and> hours0 = 12 then 0
                               else hours0)
                  in setHours (tz_offset env) hours minutes startDate0)
             | None \<Rightarrow> setHours (tz_offset env) 14 0 startDate0);
          endDate = (case startDate of None \<Rightarrow> None | Some t \<Rightarrow> TimeClip (t + 60 * 60 * 1000))
      in case startDate of
           None \<Rightarrow> Inl (Error ''Invalid time value'')
         | Some a \<Rightarrow>
            (case endDate of
               None \<Rightarrow> Inl (Error ''Invalid time value'')
             | Some b \<Rightarrow> Inr \<lparr>iv_start = a, iv_end = b\<rparr>))"

section \<open>Orchestration (class VoiceAssistant)\<close>

text \<open>
  \<^verbatim>\<open>calendarService.createEvent\<close>: the insert request goes out, and a failure of the
  calendar is rethrown under a fixed message.
\<close>

definition createEvent ::
  "assistant_env \<Rightarrow> event_data \<Rightarrow> assistant_state \<Rightarrow> (error + created_event) \<times> assistant_state"
  where
  "createEvent env eventData st =
     (let st1 = st\<lparr>calendar_inserts := calendar_inserts st @ [eventData]\<rparr>
      in case calendar_insert env eventData of
           Inl e \<Rightarrow> (Inl (Error ''Failed to create calendar event''), st1)
         | Inr ev \<Rightarrow> (Inr ev, st1))"

text \<open>
  \<^verbatim>\<open>handleScheduleEvent\<close>. Calling \<^verbatim>\<open>toLowerCase\<close> on a truthy value that is not a string
  and \<^verbatim>\<open>map\<close> on a truthy value that is not an array throw a \<^verbatim>\<open>TypeError\<close>; the
  \<^verbatim>\<open>catch\<close> clause rethrows whatever was thrown.
\<close>

definition handleScheduleEvent ::
  "assistant_env \<Rightarrow> (string \<times> jsvalue) list \<Rightarrow> string \<Rightarrow> assistant_state \<Rightarrow>
   (error + action_result) \<times> assistant_state" where
  "handleScheduleEvent env params userId st =
     (let title = get_prop params ''title'';
          dateTime = get_prop params ''dateTime'';
          atts = get_prop params ''attendees'';
          loc = get_prop params ''location''
      in if \<not> truthy title \<or> \<not> truthy dateTime
         then (Inr \<lparr>success = False,
                    message = ''Missing required parameters for scheduling''\<rparr>, st)
         else
           (case (case dateTime of
                    JStr s \<Rightarrow> parseDateTime env s
                  | _ \<Rightarrow> Inl (Error ''dateTimeString.toLowerCase is not a function'')) of
              Inl e \<Rightarrow> (Inl e, st)
            | Inr parsedDateTime \<Rightarrow>
               (case (if truthy atts
                      then (case atts of
                              JArr xs \<Rightarrow> Inr (map (\<lambda>email. JObj [(''email'', email)]) xs)
                            | _ \<Rightarrow> Inl (Error ''attendees.map is not a function''))
                      else Inr []) of
                  Inl e \<Rightarrow> (Inl e, st)
                | Inr attendeeObjs \<Rightarrow>
                   (let d = get_prop params ''description'';
                        eventData =
                          \<lparr>summary = title,
                           description = (if truthy d then d else JStr []),
                           start_dateTime = iv_start parsedDateTime,
                           end_dateTime = iv_end parsedDateTime,
                           attendees = attendeeObjs,
                           location = (if truthy loc then loc else JStr [])\<rparr>
                    in case createEvent env eventData st of
                         (Inl e, st1) \<Rightarrow> (Inl e, st1)
                       | (Inr event, st1) \<Rightarrow>
                          (let ok = (Inr \<lparr>success = True,
                                          message = ''Event '' @ [CHR 0x22] @ ev_summary event @
                                                    [CHR 0x22] @ '' scheduled successfully''\<rparr>)
                           in case atts of
                                JArr (x # xs) \<Rightarrow>
                                  (let st2 = st1\<lparr>invitations :=
                                                   invitations st1 @ [(x # xs, event)]\<rparr>
                                   in case send_invitation env (x # xs) event of
                                        Some e \<Rightarrow> (Inl e, st2)
                                      | None \<Rightarrow> (ok, st2))
                              | _ \<Rightarrow> (ok, st1))))))"

text \<open>\<^verbatim>\<open>handleIntent\<close>, the action dispatcher: one handler per action name.\<close>

definition handleIntent ::
  "assistant_env \<Rightarrow> intent \<Rightarrow> string \<Rightarrow> string \<Rightarrow> assistant_state \<Rightarrow>
   (error + action_result) \<times> assistant_state" where
  "handleIntent env i userId sessionId st =
     (let st1 = st\<lparr>dispatched := dispatched st @ [i]\<rparr>
      in if action i = ''schedule_event'' then handleScheduleEvent env (parameters i) userId st1
         else if action i = ''check_availability''
         then (handleCheckAvailability env (parameters i) userId, st1)
         else if action i = ''get_events'' then (handleGetEvents env (parameters i) userId, st1)
         else if action i = ''send_email'' then (handleSendEmail env (parameters i) userId, st1)
         else if action i = ''cancel_event''
         then (handleCancelEvent env (parameters i) userId, st1)
         else if action i = ''update_event''
         then (handleUpdateEvent env (parameters i) userId, st1)
         else (Inr \<lparr>success = False, message = ''Intent not handled''\<rparr>, st1))"

text \<open>
  \<^verbatim>\<open>VoiceAssistant.processTextInput\<close>, the handler of one turn. Its \<^verbatim>\<open>catch\<close> clause logs
  and rethrows, so a throw of any awaited call is the outcome of the turn.
\<close>

definition processTextInput ::
  "assistant_env \<Rightarrow> string \<Rightarrow> string \<Rightarrow> string \<Rightarrow> assistant_state \<Rightarrow>
   (error + ai_response) \<times> assistant_state" where
  "processTextInput env userText userId sessionId st =
     (case db_getOrCreateConversation env userId sessionId of
        Inl e \<Rightarrow> (Inl e, st)
      | Inr conversationId \<Rightarrow>
         (case db_addMessage env conversationId \<lparr>role = ''USER'', content = userText\<rparr> of
            Some e \<Rightarrow> (Inl e, st)
          | None \<Rightarrow>
             (let (aiResponse, st1) = generateResponse env userText userId sessionId None st
              in case db_addMessage env conversationId
                        \<lparr>role = ''ASSISTANT'', content = response aiResponse\<rparr> of
                   Some e \<Rightarrow> (Inl e, st1)
                 | None \<Rightarrow>
                    (if confidence (intent aiResponse) > 7 / 10
                     then (case handleIntent env (intent aiResponse) userId sessionId st1 of
                             (Inl e, st2) \<Rightarrow> (Inl e, st2)
                           | (Inr r, st2) \<Rightarrow> (Inr aiResponse, st2))
                     else (Inr aiResponse, st1)))))"

section \<open>Function-call service (backend/src/services/openaiService.ts)\<close>

record function_call =
  fc_name :: string
  fc_arguments :: string

record completion_message =
  cm_content :: "string option"
  cm_function_call :: "function_call option"

record action_intent =
  ai_type :: jsvalue
  ai_action :: string
  ai_parameters :: jsvalue
  ai_confidence :: real

record text_result =
  tr_response :: string
  tr_action :: "action_intent option"
  shouldRefreshData_flag :: bool

definition refreshActions :: "string list" where
  "refreshActions = [''create_calendar_event'', ''update_calendar_event'',
                     ''delete_calendar_event'', ''send_email'', ''mark_email_read'']"

definition shouldRefreshData :: "string \<Rightarrow> bool" where
  "shouldRefreshData actionName = (actionName \<in> set refreshActions)"

text \<open>
  \<^verbatim>\<open>OpenAIService.processTextInput\<close>, given the outcome of the completion call and
  \<^verbatim>\<open>JSON.parse\<close> (\<open>None\<close> for a \<^verbatim>\<open>SyntaxError\<close>). Reading \<^verbatim>\<open>.type\<close> of \<^verbatim>\<open>null\<close> throws;
  on any other value that is not an object it yields \<^verbatim>\<open>undefined\<close>. The \<^verbatim>\<open>catch\<close>
  clause replaces whatever was thrown by one fixed error.
\<close>

definition service_processTextInput ::
  "(error + completion_message) \<Rightarrow> (string \<Rightarrow> jsvalue option) \<Rightarrow> error + text_result" where
  "service_processTextInput completion parse =
     (case completion of
        Inl e \<Rightarrow> Inl (Error ''Failed to process text input'')
      | Inr resp \<Rightarrow>
         (case cm_function_call resp of
            Some functionCall \<Rightarrow>
              (case parse (fc_arguments functionCall) of
                 None \<Rightarrow> Inl (Error ''Failed to process text input'')
               | Some JUndefined \<Rightarrow> Inl (Error ''Failed to process text input'')
               | Some JNull \<Rightarrow> Inl (Error ''Failed to process text input'')
               | Some parsedArgs \<Rightarrow>
                  (let ty = (case parsedArgs of JObj ps \<Rightarrow> get_prop ps ''type''
                             | _ \<Rightarrow> JUndefined)
                   in Inr \<lparr>tr_response =
                             (if falsy_str (cm_content resp) then ''I'' @ [CHR 0x27] @ ''ll help you with that.''
                              else the (cm_content resp)),
                           tr_action =
                             Some \<lparr>ai_type = (if truthy ty then ty else JStr ''general''),
                                   ai_action = fc_name functionCall,
                                   ai_parameters = parsedArgs,
                                   ai_confidence = 9 / 10\<rparr>,
                           shouldRefreshData_flag = shouldRefreshData (fc_name functionCall)\<rparr>))
          | None \<Rightarrow>
              Inr \<lparr>tr_response =
                     (if falsy_str (cm_content resp)
                      then ''I'' @ [CHR 0x27] @ ''m sorry, I didn'' @ [CHR 0x27] @ ''t understand that.''
                      else the (cm_content resp)),
                   tr_action = None,
                   shouldRefreshData_flag = False\<rparr>))"

section \<open>Well-formed conversations\<close>

text \<open>
  The shape every stored message list has: the system message first, and no other
  system message after it.
\<close>

definition wf_messages :: "chat_message list \<Rightarrow> bool" where
  "wf_messages ms =
     (case ms of
        [] \<Rightarrow> False
      | s # rest \<Rightarrow> role s = ''system'' \<and> list_all (\<lambda>m. role m \<noteq> ''system'') rest)"

definition wf_state :: "assistant_state \<Rightarrow> bool" where
  "wf_state st = (\<forall>k c. conversations st k = Some c \<longrightarrow> wf_messages (messages c))"

section \<open>Concrete scenarios\<close>

text \<open>Token scenarios: a provider that answers, a provider that refuses, one stored user.\<close>

definition auth_env_ok :: auth_env where
  "auth_env_ok =
     \<lparr>clock = 1000000,
      oauth_refresh = (\<lambda>rt. Inr \<lparr>access_token = ''fresh'', refresh_token = None,
                                  expiry_date = 4600000\<rparr>),
      find_throws = None, save_throws = None\<rparr>"

definition auth_env_down :: auth_env where
  "auth_env_down =
     \<lparr>clock = 1000000, oauth_refresh = (\<lambda>rt. Inl (Error ''invalid_grant'')),
      find_throws = None, save_throws = None\<rparr>"

definition auth_user :: "string option \<Rightarrow> int \<Rightarrow> user" where
  "auth_user rt expiry = \<lparr>accessToken = ''stale'', refreshToken = rt, tokenExpiry = expiry\<rparr>"

definition auth_store :: "string option \<Rightarrow> int \<Rightarrow> auth_state" where
  "auth_store rt expiry =
     \<lparr>users = [''u1'' \<mapsto> auth_user rt expiry], client_refresh_token = None,
      refresh_calls = []\<rparr>"

text \<open>
  Assistant scenarios: the classifier answers with a given intent, the reply completion
  answers, the database works, and the calendar behaves as given. The clock reads
  2023-11-14T22:13:20Z, a Tuesday.
\<close>

definition ok_result :: action_result where
  "ok_result = \<lparr>success = True, message = ''done''\<rparr>"

definition env_with ::
  "intent \<Rightarrow> (event_data \<Rightarrow> error + created_event) \<Rightarrow> assistant_env" where
  "env_with i cal =
     \<lparr>classify_completion = (\<lambda>u. Inr (Some ''{}'')),
      json_parse = (\<lambda>s. Some i),
      reply_completion = (\<lambda>ms. Inr (Some ''Sure.'')),
      json_stringify = (\<lambda>c. ''{}''),
      db_getOrCreateConversation = (\<lambda>u s. Inr ''c1''),
      db_addMessage = (\<lambda>c m. None),
      time_now = 1700000000000,
      tz_offset = 0,
      calendar_insert = cal,
      send_invitation = (\<lambda>xs ev. None),
      handleCheckAvailability = (\<lambda>ps u. Inr ok_result),
      handleGetEvents = (\<lambda>ps u. Inr ok_result),
      handleSendEmail = (\<lambda>ps u. Inr ok_result),
      handleCancelEvent = (\<lambda>ps u. Inr ok_result),
      handleUpdateEvent = (\<lambda>ps u. Inr ok_result)\<rparr>"

definition calendar_down :: "event_data \<Rightarrow> error + created_event" where
  "calendar_down ed = Inl (Error ''quotaExceeded'')"

definition intent_schedule :: "real \<Rightarrow> intent" where
  "intent_schedule c =
     \<lparr>action = ''schedule_event'', confidence = c,
      parameters = [(''title'', JStr ''Budget Review''), (''dateTime'', JStr ''tomorrow 3pm'')]\<rparr>"

definition intent_untitled :: intent where
  "intent_untitled =
     \<lparr>action = ''schedule_event'', confidence = 85 / 100,
      parameters = [(''dateTime'', JStr ''tomorrow'')]\<rparr>"

definition intent_send_nobody :: intent where
  "intent_send_nobody =
     \<lparr>action = ''send_email'', confidence = 9 / 10,
      parameters = [(''recipients'', JArr []), (''subject'', JStr ''Status update'')]\<rparr>"

definition env_classifier_down :: assistant_env where
  "env_classifier_down =
     (env_with intent_untitled calendar_down)
       \<lparr>classify_completion := (\<lambda>u. Inl (Error ''timeout''))\<rparr>"

definition env_classifier_garbled :: assistant_env where
  "env_classifier_garbled =
     (env_with intent_untitled calendar_down)
       \<lparr>classify_completion := (\<lambda>u. Inr (Some ''Sorry, I cannot help'')),
        json_parse := (\<lambda>s. None)\<rparr>"

definition env_reply_down :: assistant_env where
  "env_reply_down =
     (env_with (intent_schedule (9 / 10)) calendar_down)
       \<lparr>reply_completion := (\<lambda>ms. Inl (Error ''timeout''))\<rparr>"

definition empty_state :: assistant_state where
  "empty_state = \<lparr>conversations = Map.empty, calendar_inserts = [], invitations = [],
                  dispatched = []\<rparr>"


definition chat :: "string \<Rightarrow> string \<Rightarrow> chat_message" where
  "chat r t = \<lparr>role = r, content = t\<rparr>"

definition fifteen_messages :: "chat_message list" where
  "fifteen_messages =
     [chat ''user'' ''m01'', chat ''assistant'' ''m02'', chat ''user'' ''m03'',
      chat ''assistant'' ''m04'', chat ''user'' ''m05'', chat ''assistant'' ''m06'',
      chat ''user'' ''m07'', chat ''assistant'' ''m08'', chat ''user'' ''m09'',
      chat ''assistant'' ''m10'', chat ''user'' ''m11'', chat ''assistant'' ''m12'',
      chat ''user'' ''m13'', chat ''assistant'' ''m14'', chat ''user'' ''m15'']"

definition send_email_call :: completion_message where
  "send_email_call =
     \<lparr>cm_content = None,
      cm_function_call = Some \<lparr>fc_name = ''send_email'', fc_arguments = ''{}''\<rparr>\<rparr>"

definition get_events_call :: completion_message where
  "get_events_call =
     \<lparr>cm_content = None,
      cm_function_call = Some \<lparr>fc_name = ''get_calendar_events'', fc_arguments = ''{}''\<rparr>\<rparr>"

definition parse_empty_object :: "string \<Rightarrow> jsvalue option" where
  "parse_empty_object s = (if s = ''{}'' then Some (JObj []) else None)"


text \<open>
  The state after five completed turns of user \<^verbatim>\<open>u1\<close> in session \<^verbatim>\<open>default\<close>: the
  system message and the nine messages kept by the last trimming.
\<close>

definition ten_message_state :: assistant_state where
  "ten_message_state =
     empty_state
       \<lparr>conversations :=
          [''u1-default'' \<mapsto>
             \<lparr>messages = chat ''system'' system_prompt # take 9 (drop 1 fifteen_messages),
              currentTask = JUndefined, pendingData = JUndefined\<rparr>]\<rparr>"

section \<open>Token lifecycle: results\<close>

text \<open>
  Claim C3. \<^verbatim>\<open>getValidAccessToken\<close> compares the stored expiry with the clock plus five
  minutes. For a stored user whose expiry lies strictly beyond that instant it returns
  the stored access token and leaves the whole state as it was, so no refresh request
  is sent. Otherwise it takes the refresh path: without a refresh token it fails at
  once; with one, exactly one refresh request carrying that token is sent, and a token
  that is returned is the one the provider issued.
\<close>

theorem getValidAccessToken_expiry_window:
  assumes "find_throws env = None" and "users st userId = Some u"
  shows "(tokenExpiry u > clock env + 5 * 60 * 1000 \<longrightarrow>
            getValidAccessToken env userId st = (Inr (accessToken u), st)) \<and>
         (tokenExpiry u \<le> clock env + 5 * 60 * 1000 \<longrightarrow>
            (if falsy_str (refreshToken u)
             then getValidAccessToken env userId st =
                    (Inl (Error ''Failed to get valid access token''), st)
             else refresh_calls (snd (getValidAccessToken env userId st)) =
                    refresh_calls st @ [the (refreshToken u)] \<and>
                  (\<forall>tok. fst (getValidAccessToken env userId st) = Inr tok \<longrightarrow>
                     (\<exists>c. oauth_refresh env (the (refreshToken u)) = Inr c \<and>
                          tok = access_token c))))"
  using assms
  by (auto simp: getValidAccessToken_def getValidAccessToken_try_def refreshAccessToken_def
        Let_def split: sum.splits option.splits prod.splits if_splits)

text \<open>
  The two instances the specification names: an expiry ten minutes ahead returns the
  stored token with no refresh request, an expiry four minutes ahead sends one.
\<close>

theorem getValidAccessToken_expiry_window_witness:
  "getValidAccessToken auth_env_ok ''u1'' (auth_store (Some ''r1'') (1000000 + 10 * 60 * 1000)) =
     (Inr ''stale'', auth_store (Some ''r1'') (1000000 + 10 * 60 * 1000)) \<and>
   refresh_calls
     (snd (getValidAccessToken auth_env_ok ''u1''
             (auth_store (Some ''r1'') (1000000 + 4 * 60 * 1000)))) = [''r1'']"
  using getValidAccessToken_expiry_window
          [of auth_env_ok "auth_store (Some ''r1'') (1000000 + 10 * 60 * 1000)" "''u1''"
              "auth_user (Some ''r1'') (1000000 + 10 * 60 * 1000)"]
        getValidAccessToken_expiry_window
          [of auth_env_ok "auth_store (Some ''r1'') (1000000 + 4 * 60 * 1000)" "''u1''"
              "auth_user (Some ''r1'') (1000000 + 4 * 60 * 1000)"]
  by (simp add: auth_env_ok_def auth_store_def auth_user_def falsy_str_def)

text \<open>
  Claim C4, as stated, asks for two distinct error kinds. The caller sees one: with an
  expired token, a user without refresh token and a user whose refresh the provider
  refuses both end in the same error.
\<close>

theorem getValidAccessToken_errors_coincide:
  "fst (getValidAccessToken auth_env_down ''u1'' (auth_store None 1000000)) =
     Inl (Error ''Failed to get valid access token'') \<and>
   fst (getValidAccessToken auth_env_down ''u1'' (auth_store (Some ''r1'') 1000000)) =
     Inl (Error ''Failed to get valid access token'')"
  by (simp add: getValidAccessToken_def getValidAccessToken_try_def refreshAccessToken_def
        auth_env_down_def auth_store_def auth_user_def falsy_str_def)

text \<open>
  Claim C4, amended. Within the expiry window, \<^verbatim>\<open>getValidAccessToken\<close> fails when the
  user stores no refresh token and when the provider refuses the refresh. In both cases
  the caller receives the single error \<^verbatim>\<open>Failed to get valid access token\<close>; the two
  causes are told apart only inside the \<^verbatim>\<open>try\<close> block, by the message of the error
  raised there. No token is returned, and the stored users are unchanged.
\<close>

theorem getValidAccessToken_failure_keeps_store:
  assumes "find_throws env = None" and "users st userId = Some u"
    and "tokenExpiry u \<le> clock env + 5 * 60 * 1000"
    and "falsy_str (refreshToken u) \<or> (\<exists>e. oauth_refresh env (the (refreshToken u)) = Inl e)"
  shows "fst (getValidAccessToken env userId st) =
           Inl (Error ''Failed to get valid access token'') \<and>
         users (snd (getValidAccessToken env userId st)) = users st \<and>
         fst (getValidAccessToken_try env userId st) =
           Inl (Error (if falsy_str (refreshToken u) then ''No refresh token available''
                       else ''Failed to refresh access token''))"
  using assms
  by (auto simp: getValidAccessToken_def getValidAccessToken_try_def refreshAccessToken_def
        Let_def split: sum.splits option.splits prod.splits)

theorem getValidAccessToken_failure_keeps_store_witness:
  "users (snd (getValidAccessToken auth_env_down ''u1'' (auth_store None 1000000))) =
     users (auth_store None 1000000) \<and>
   fst (getValidAccessToken_try auth_env_down ''u1'' (auth_store None 1000000)) =
     Inl (Error ''No refresh token available'') \<and>
   users (snd (getValidAccessToken auth_env_down ''u1'' (auth_store (Some ''r1'') 1000000))) =
     users (auth_store (Some ''r1'') 1000000) \<and>
   fst (getValidAccessToken_try auth_env_down ''u1'' (auth_store (Some ''r1'') 1000000)) =
     Inl (Error ''Failed to refresh access token'')"
  using getValidAccessToken_failure_keeps_store
          [of auth_env_down "auth_store None 1000000" "''u1''" "auth_user None 1000000"]
        getValidAccessToken_failure_keeps_store
          [of auth_env_down "auth_store (Some ''r1'') 1000000" "''u1''"
              "auth_user (Some ''r1'') 1000000"]
  by (simp add: auth_env_down_def auth_store_def auth_user_def falsy_str_def)

section \<open>Conversation service: results\<close>

text \<open>
  Reading and extending a conversation touches the conversation map only: the calendar
  requests, the invitations and the dispatched intents stay as they are.
\<close>

lemma getContext_frame:
  "calendar_inserts (snd (getContext u s st)) = calendar_inserts st \<and>
   invitations (snd (getContext u s st)) = invitations st \<and>
   dispatched (snd (getContext u s st)) = dispatched st"
  by (simp add: getContext_def split: option.splits)

lemma generateResponse_try_frame:
  "calendar_inserts (snd (generateResponse_try env t u s c st)) = calendar_inserts st \<and>
   invitations (snd (generateResponse_try env t u s c st)) = invitations st \<and>
   dispatched (snd (generateResponse_try env t u s c st)) = dispatched st"
  using getContext_frame [of u s st]
  by (cases "getContext u s st") (auto simp: generateResponse_try_def Let_def split: sum.splits)

lemma generateResponse_frame:
  "calendar_inserts (snd (generateResponse env t u s c st)) = calendar_inserts st \<and>
   invitations (snd (generateResponse env t u s c st)) = invitations st \<and>
   dispatched (snd (generateResponse env t u s c st)) = dispatched st"
  using generateResponse_try_frame [of env t u s c st]
  by (cases "generateResponse_try env t u s c st")
     (auto simp: generateResponse_def split: sum.splits)

lemma handleFollowUp_frame:
  "calendar_inserts (snd (handleFollowUp env t u s st)) = calendar_inserts st \<and>
   invitations (snd (handleFollowUp env t u s st)) = invitations st \<and>
   dispatched (snd (handleFollowUp env t u s st)) = dispatched st"
proof -
  obtain c st0 where g: "getContext u s st = (c, st0)" by (cases "getContext u s st")
  have f0: "calendar_inserts st0 = calendar_inserts st \<and> invitations st0 = invitations st \<and>
            dispatched st0 = dispatched st"
    using getContext_frame [of u s st] g by simp
  show ?thesis
    using f0 generateResponse_frame [of env t u s "Some (currentTask c, pendingData c)" st0]
      generateResponse_frame [of env t u s None st0]
    by (cases "generateResponse env t u s (Some (currentTask c, pendingData c)) st0";
        cases "generateResponse env t u s None st0")
       (auto simp: handleFollowUp_def g Let_def)
qed

text \<open>The reply of the scenario environment on a fresh state.\<close>

lemma generateResponse_scenario:
  "fst (generateResponse (env_with i cal) ''hi'' ''u1'' ''default'' None empty_state) =
     \<lparr>response = ''Sure.'', intent = i, needsMoreInfo = Some (checkIfNeedsMoreInfo i)\<rparr>"
  by (simp add: generateResponse_def generateResponse_try_def getContext_def env_with_def
        empty_state_def analyzeIntent_def analyzeIntent_try_def falsy_str_def Let_def
        initial_context_def contextId_def)

text \<open>
  Claim C1. The confidence of a turn is a number read from JSON; no such number lies
  strictly between the one written \<^verbatim>\<open>0.7\<close> and 7/10, so the comparison below is the
  source's. Whenever the intent of the turn has confidence at most 0.7,
  \<^verbatim>\<open>processTextInput\<close> ends without entering \<^verbatim>\<open>handleIntent\<close> and without a calendar
  request; \<^verbatim>\<open>handleFollowUp\<close> never enters \<^verbatim>\<open>handleIntent\<close> at all.
\<close>

theorem low_confidence_no_dispatch:
  assumes "confidence (intent (fst (generateResponse env userText userId sessionId None st)))
             \<le> 7 / 10"
  shows "dispatched (snd (processTextInput env userText userId sessionId st)) = dispatched st \<and>
         calendar_inserts (snd (processTextInput env userText userId sessionId st)) =
           calendar_inserts st \<and>
         dispatched (snd (handleFollowUp env userText userId sessionId st)) = dispatched st \<and>
         calendar_inserts (snd (handleFollowUp env userText userId sessionId st)) =
           calendar_inserts st"
  using assms generateResponse_frame [of env userText userId sessionId None st]
    handleFollowUp_frame [of env userText userId sessionId st]
  by (cases "generateResponse env userText userId sessionId None st")
     (auto simp: processTextInput_def Let_def split: sum.splits option.splits)

text \<open>
  A complete scheduling intent classified with confidence exactly 0.7, in front of a
  calendar that would fail: nothing is dispatched and no calendar request is made.
\<close>

theorem low_confidence_no_dispatch_witness:
  "dispatched (snd (processTextInput (env_with (intent_schedule (7 / 10)) calendar_down)
                      ''hi'' ''u1'' ''default'' empty_state)) = [] \<and>
   calendar_inserts (snd (processTextInput (env_with (intent_schedule (7 / 10)) calendar_down)
                            ''hi'' ''u1'' ''default'' empty_state)) = []"
  using low_confidence_no_dispatch
          [of "env_with (intent_schedule (7 / 10)) calendar_down" "''hi''" "''u1''" "''default''"
              empty_state]
  by (simp add: generateResponse_scenario) (simp add: intent_schedule_def empty_state_def)




text \<open>
  Claim C8. Whenever the classification completion throws, or its content is not JSON,
  \<^verbatim>\<open>analyzeIntent\<close> returns \<^verbatim>\<open>{action: "none", confidence: 0, parameters: {}}\<close>; more
  generally this is its value whenever anything is thrown inside its \<^verbatim>\<open>try\<close> block.
  For every input \<^verbatim>\<open>analyzeIntent\<close> has a value, which is either this fallback or the
  intent parsed from the completion, and the fallback has a confidence below the
  execution threshold.
\<close>

theorem analyzeIntent_fails_soft:
  "((\<exists>e. classify_completion env userInput = Inl e) \<or>
    (\<exists>s. classify_completion env userInput = Inr (Some s) \<and> s \<noteq> [] \<and> json_parse env s = None)
    \<longrightarrow> analyzeIntent env userInput = \<lparr>action = ''none'', confidence = 0, parameters = []\<rparr>) \<and>
   (\<forall>e. analyzeIntent_try env userInput = Inl e \<longrightarrow>
        analyzeIntent env userInput = \<lparr>action = ''none'', confidence = 0, parameters = []\<rparr>) \<and>
   (analyzeIntent env userInput = \<lparr>action = ''none'', confidence = 0, parameters = []\<rparr> \<or>
    (\<exists>s. classify_completion env userInput = Inr (Some s) \<and>
         json_parse env s = Some (analyzeIntent env userInput))) \<and>
   confidence \<lparr>action = ''none'', confidence = 0, parameters = []\<rparr> \<le> 7 / 10"
  by (auto simp: analyzeIntent_def analyzeIntent_try_def fallback_intent_def falsy_str_def
        split: sum.splits option.splits)

text \<open>A classifier that times out, and a classifier that answers in prose.\<close>

theorem analyzeIntent_fails_soft_witness:
  "analyzeIntent env_classifier_down ''Schedule a meeting tomorrow'' =
     \<lparr>action = ''none'', confidence = 0, parameters = []\<rparr> \<and>
   analyzeIntent env_classifier_garbled ''Schedule a meeting tomorrow'' =
     \<lparr>action = ''none'', confidence = 0, parameters = []\<rparr>"
  using analyzeIntent_fails_soft [of env_classifier_down "''Schedule a meeting tomorrow''"]
        analyzeIntent_fails_soft [of env_classifier_garbled "''Schedule a meeting tomorrow''"]
  by (simp add: env_classifier_down_def env_classifier_garbled_def env_with_def)

text \<open>
  The clarification check is the table of the specification read with JavaScript
  truthiness: a parameter counts as missing when its value is falsy.
\<close>

lemma checkIfNeedsMoreInfo_table:
  "checkIfNeedsMoreInfo i =
     (if action i = ''schedule_event''
      then \<not> truthy (get_prop (parameters i) ''title'') \<or>
           \<not> truthy (get_prop (parameters i) ''dateTime'')
      else if action i = ''check_availability''
      then \<not> truthy (get_prop (parameters i) ''date'')
      else if action i = ''send_email''
      then \<not> truthy (get_prop (parameters i) ''recipients'') \<or>
           \<not> truthy (get_prop (parameters i) ''subject'')
      else False)"
  by (simp add: checkIfNeedsMoreInfo_def)

lemma checkIfNeedsMoreInfo_other_actions:
  "action i \<notin> {''schedule_event'', ''check_availability'', ''send_email''} \<Longrightarrow>
   \<not> checkIfNeedsMoreInfo i"
  by (simp add: checkIfNeedsMoreInfo_def)

text \<open>
  Claim C5. The claim has the check return true whenever \<^verbatim>\<open>recipients\<close> is empty. The
  recipients of an email are an array, and an empty array is truthy: for a
  \<^verbatim>\<open>send_email\<close> intent with \<^verbatim>\<open>recipients: []\<close> and a subject the check answers that
  nothing is missing.
\<close>

theorem checkIfNeedsMoreInfo_empty_recipients:
  "checkIfNeedsMoreInfo intent_send_nobody = False"
  by (simp add: checkIfNeedsMoreInfo_def intent_send_nobody_def get_prop_def)

text \<open>The recipients of that intent are the empty array, and the check lets it pass.\<close>

theorem checkIfNeedsMoreInfo_empty_recipients_witness:
  "get_prop (parameters intent_send_nobody) ''recipients'' = JArr [] \<and>
   \<not> checkIfNeedsMoreInfo intent_send_nobody"
  using checkIfNeedsMoreInfo_empty_recipients
  by (simp add: intent_send_nobody_def get_prop_def)

text \<open>
  Claim C6. For a \<^verbatim>\<open>schedule_event\<close> intent whose parameters lack \<^verbatim>\<open>title\<close> or
  \<^verbatim>\<open>dateTime\<close> (a property that is not there reads as \<^verbatim>\<open>undefined\<close>, which is falsy),
  the clarification check reports that more information is needed, and
  \<^verbatim>\<open>handleScheduleEvent\<close> returns the failure result with the state unchanged; when the
  intent is dispatched all the same, no calendar request is made.
\<close>

theorem schedule_event_missing_parameter:
  assumes "action i = ''schedule_event''"
    and "\<not> truthy (get_prop (parameters i) ''title'') \<or>
         \<not> truthy (get_prop (parameters i) ''dateTime'')"
  shows "checkIfNeedsMoreInfo i \<and>
         handleScheduleEvent env (parameters i) userId st =
           (Inr \<lparr>success = False, message = ''Missing required parameters for scheduling''\<rparr>,
            st) \<and>
         fst (handleIntent env i userId sessionId st) =
           Inr \<lparr>success = False, message = ''Missing required parameters for scheduling''\<rparr> \<and>
         calendar_inserts (snd (handleIntent env i userId sessionId st)) = calendar_inserts st"
  using assms
  by (auto simp: checkIfNeedsMoreInfo_def handleScheduleEvent_def handleIntent_def Let_def)

text \<open>The intent of the specification's scenario A: a date but no title.\<close>

theorem schedule_event_missing_parameter_witness:
  "checkIfNeedsMoreInfo intent_untitled \<and>
   handleScheduleEvent (env_with intent_untitled calendar_down) (parameters intent_untitled)
       ''u1'' empty_state =
     (Inr \<lparr>success = False, message = ''Missing required parameters for scheduling''\<rparr>,
      empty_state) \<and>
   calendar_inserts
     (snd (handleIntent (env_with intent_untitled calendar_down) intent_untitled ''u1''
             ''default'' empty_state)) = []"
  using schedule_event_missing_parameter
          [of intent_untitled "env_with intent_untitled calendar_down" "''u1''" empty_state
              "''default''"]
  by (simp add: intent_untitled_def get_prop_def empty_state_def)

text \<open>
  Trimming and appending keep a message list well formed, so every conversation the
  service stores has its system message first and no other system message.
\<close>

lemma trimMessages_wf:
  assumes "wf_messages ms"
  shows "wf_messages (trimMessages ms)"
proof (cases ms)
  case Nil
  then show ?thesis using assms by (simp add: wf_messages_def)
next
  case (Cons s rest)
  show ?thesis
  proof (cases "length ms > 10")
    case False
    then show ?thesis using assms by (simp add: trimMessages_def)
  next
    case True
    have sys: "role s = ''system''" and rest: "\<forall>m \<in> set rest. role m \<noteq> ''system''"
      using assms Cons by (auto simp: wf_messages_def list_all_iff)
    have len: "length rest \<ge> 10" using True Cons by simp
    have "trimMessages ms = s # drop (length rest - 9) rest"
      using sys len Cons by (simp add: trimMessages_def slice_last_def Suc_diff_le drop_Cons')
    moreover have "\<forall>m \<in> set (drop (length rest - 9) rest). role m \<noteq> ''system''"
      using rest by (meson in_set_dropD)
    ultimately show ?thesis using sys by (simp add: wf_messages_def list_all_iff)
  qed
qed

lemma wf_messages_append:
  "wf_messages ms \<Longrightarrow> r \<noteq> ''system'' \<Longrightarrow> wf_messages (ms @ [\<lparr>role = r, content = t\<rparr>])"
  by (cases ms) (auto simp: wf_messages_def)

lemma wf_initial: "wf_messages (messages initial_context)"
  by (simp add: wf_messages_def initial_context_def)

lemma getContext_wf:
  assumes "wf_state st" and "getContext u s st = (c, st0)"
  shows "wf_state st0 \<and> wf_messages (messages c) \<and> conversations st0 (contextId u s) = Some c"
  using assms wf_initial
  by (auto simp: getContext_def wf_state_def split: option.splits if_splits)

lemma generateResponse_try_wf:
  assumes "wf_state st"
  shows "wf_state (snd (generateResponse_try env t u s cx st))"
proof -
  obtain c st0 where g: "getContext u s st = (c, st0)" by (cases "getContext u s st")
  have w: "wf_state st0" "wf_messages (messages c)" using getContext_wf [OF assms g] by auto
  have w1: "wf_messages (messages c @ [\<lparr>role = ''user'', content = t\<rparr>])"
    using w(2) by (simp add: wf_messages_append)
  have w2: "wf_messages (trimMessages ((messages c @ [\<lparr>role = ''user'', content = t\<rparr>]) @
              [\<lparr>role = ''assistant'', content = a\<rparr>]))" for a
    using trimMessages_wf [OF wf_messages_append [OF w1, of "''assistant''" a]] by simp
  show ?thesis
    using w(1) w1 w2
    by (auto simp: generateResponse_try_def g Let_def wf_state_def split: sum.splits)
qed

lemma generateResponse_wf:
  assumes "wf_state st"
  shows "wf_state (snd (generateResponse env t u s cx st))"
  using generateResponse_try_wf [OF assms, of env t u s cx]
  by (cases "generateResponse_try env t u s cx st")
     (auto simp: generateResponse_def split: sum.splits)

text \<open>
  What a completed \<^verbatim>\<open>generateResponse\<close> stores: the previous messages, the user message
  and the assistant message, trimmed.
\<close>

lemma generateResponse_try_stored:
  assumes "getContext u s st = (c, st0)"
    and "generateResponse_try env t u s cx st = (Inr r, st1)"
  shows "map_option messages (conversations st1 (contextId u s)) =
           Some (trimMessages (messages c @ [\<lparr>role = ''user'', content = t\<rparr>,
                                              \<lparr>role = ''assistant'', content = response r\<rparr>]))"
  using assms
  by (auto simp: generateResponse_try_def Let_def split: sum.splits)

text \<open>
  When the completion throws, the user message has been stored and the block that trims
  is not reached.
\<close>

lemma generateResponse_try_thrown_stored:
  assumes "getContext u s st = (c, st0)"
    and "generateResponse_try env t u s cx st = (Inl e, st1)"
  shows "map_option messages (conversations st1 (contextId u s)) =
           Some (messages c @ [\<lparr>role = ''user'', content = t\<rparr>])"
  using assms
  by (auto simp: generateResponse_try_def Let_def split: sum.splits)

text \<open>
  The trimming block. Take a message list made of the system message \<open>s\<close> followed by
  the messages \<open>rest\<close> appended since, none of them a system message, with more than 10
  messages in all. Trimming yields exactly \<open>s\<close> followed by the last 9 messages of
  \<open>rest\<close> in their order, 10 messages in all; \<open>rest\<close> is the list of non-system
  messages, so these are the 9 most recent of them, and the system message is kept.
\<close>

lemma trimMessages_keeps_system_and_last_nine:
  assumes "role s = ''system''" and "\<forall>m \<in> set rest. role m \<noteq> ''system''"
    and "length (s # rest) > 10"
  shows "trimMessages (s # rest) = s # drop (length rest - 9) rest \<and>
         length (trimMessages (s # rest)) = 10 \<and>
         filter (\<lambda>m. role m \<noteq> ''system'') (s # rest) = rest"
proof -
  have len: "length rest \<ge> 10" using assms(3) by simp
  have "slice_last 9 (s # rest) = drop (length rest - 9) rest"
    using len by (simp add: slice_last_def Suc_diff_le drop_Cons')
  moreover have "filter (\<lambda>m. role m \<noteq> ''system'') rest = rest"
    using assms(2) by (simp add: filter_id_conv)
  ultimately show ?thesis using assms(1,3) len by (simp add: trimMessages_def)
qed

text \<open>Fifteen messages after the system message: ten remain, the system message and the last nine.\<close>

lemma trimMessages_fifteen_messages:
  "trimMessages (chat ''system'' system_prompt # fifteen_messages) =
     [chat ''system'' system_prompt,
      chat ''user'' ''m07'', chat ''assistant'' ''m08'', chat ''user'' ''m09'',
      chat ''assistant'' ''m10'', chat ''user'' ''m11'', chat ''assistant'' ''m12'',
      chat ''user'' ''m13'', chat ''assistant'' ''m14'', chat ''user'' ''m15''] \<and>
   length (trimMessages (chat ''system'' system_prompt # fifteen_messages)) = 10"
  using trimMessages_keeps_system_and_last_nine
          [of "chat ''system'' system_prompt" fifteen_messages]
  by (simp add: fifteen_messages_def chat_def)

text \<open>
  A completed turn. In a state whose conversations are well formed, when the reply
  completion returns and the user and assistant messages bring the conversation above
  10 messages, the conversation stored at the end of \<^verbatim>\<open>generateResponse\<close> is exactly
  the system message followed by the 9 most recent other messages in their order, 10
  messages in all.
\<close>

theorem completed_turn_stores_trimmed_context:
  assumes "wf_state st" and "getContext u s st = (c, st0)"
    and "generateResponse_try env t u s cx st = (Inr r, st1)"
    and "length (messages c) + 2 > 10"
  shows "\<exists>sys rest.
           messages c @ [\<lparr>role = ''user'', content = t\<rparr>,
                         \<lparr>role = ''assistant'', content = response r\<rparr>] = sys # rest \<and>
           role sys = ''system'' \<and> (\<forall>m \<in> set rest. role m \<noteq> ''system'') \<and>
           map_option messages (conversations st1 (contextId u s)) =
             Some (sys # drop (length rest - 9) rest) \<and>
           length (sys # drop (length rest - 9) rest) = 10"
proof -
  have "wf_messages (messages c)" using getContext_wf [OF assms(1,2)] by simp
  then obtain sys rest0 where c: "messages c = sys # rest0" "role sys = ''system''"
      "\<forall>m \<in> set rest0. role m \<noteq> ''system''"
    by (cases "messages c") (auto simp: wf_messages_def list_all_iff)
  let ?rest = "rest0 @ [\<lparr>role = ''user'', content = t\<rparr>,
                        \<lparr>role = ''assistant'', content = response r\<rparr>]"
  have rest: "\<forall>m \<in> set ?rest. role m \<noteq> ''system''" using c(3) by auto
  have len: "length (sys # ?rest) > 10" using assms(4) c(1) by simp
  have trim: "trimMessages (sys # ?rest) = sys # drop (length ?rest - 9) ?rest \<and>
              length (trimMessages (sys # ?rest)) = 10"
    using trimMessages_keeps_system_and_last_nine [OF c(2) rest len] by blast
  have stored: "map_option messages (conversations st1 (contextId u s)) =
                  Some (trimMessages (sys # ?rest))"
    using generateResponse_try_stored [OF assms(2,3)] c(1) by simp
  show ?thesis
    using c(1,2) rest trim stored by (intro exI [of _ sys] exI [of _ ?rest]) auto
qed

text \<open>
  Claim C7. The claim has every conversation that appending brings above 10 messages
  consist of the system message and the 9 most recent others. The user message is
  appended before the reply completion is requested, and the \<^verbatim>\<open>catch\<close> clause returns
  without reaching the block that trims. From a stored conversation of 10 messages,
  a turn whose reply completion times out leaves 11 messages stored: nothing is
  dropped.
\<close>

theorem failed_turn_leaves_context_untrimmed:
  "map_option messages
     (conversations
        (snd (generateResponse env_reply_down ''hi'' ''u1'' ''default'' None ten_message_state))
        ''u1-default'') =
     Some (chat ''system'' system_prompt # take 9 (drop 1 fifteen_messages) @ [chat ''user'' ''hi'']) \<and>
   length (chat ''system'' system_prompt # take 9 (drop 1 fifteen_messages) @ [chat ''user'' ''hi'']) = 11"
  by (simp add: generateResponse_def generateResponse_try_def getContext_def env_reply_down_def
        env_with_def ten_message_state_def empty_state_def Let_def contextId_def chat_def
        fifteen_messages_def)

text \<open>The conversation stored after that turn holds more than 10 messages.\<close>

theorem failed_turn_leaves_context_untrimmed_witness:
  "length (messages (the (conversations
     (snd (generateResponse env_reply_down ''hi'' ''u1'' ''default'' None ten_message_state))
     ''u1-default''))) = 11"
  using failed_turn_leaves_context_untrimmed
  by (cases "conversations
        (snd (generateResponse env_reply_down ''hi'' ''u1'' ''default'' None ten_message_state))
        ''u1-default''") auto

section \<open>Function-call service: results\<close>

text \<open>
  Claim C9, as stated, has the flag false in a turn whose action did not succeed.
  \<^verbatim>\<open>processTextInput\<close> runs no action: it returns the flag together with the classified
  call. For a \<^verbatim>\<open>send_email\<close> call whose arguments are the empty object, which names no
  recipient, subject or body, the flag is already true.
\<close>

theorem shouldRefreshData_set_before_any_action:
  "service_processTextInput (Inr send_email_call) parse_empty_object =
     Inr \<lparr>tr_response = ''I'' @ [CHR 0x27] @ ''ll help you with that.'',
          tr_action = Some \<lparr>ai_type = JStr ''general'', ai_action = ''send_email'',
                            ai_parameters = JObj [], ai_confidence = 9 / 10\<rparr>,
          shouldRefreshData_flag = True\<rparr>"
  by (simp add: service_processTextInput_def shouldRefreshData_def refreshActions_def
        send_email_call_def parse_empty_object_def get_prop_def falsy_str_def)

text \<open>
  Claim C9, amended. Whenever \<^verbatim>\<open>processTextInput\<close> returns a result, its flag is true
  if and only if the completion holds a function call whose name is one of
  \<^verbatim>\<open>create_calendar_event\<close>, \<^verbatim>\<open>update_calendar_event\<close>, \<^verbatim>\<open>delete_calendar_event\<close>,
  \<^verbatim>\<open>send_email\<close>, \<^verbatim>\<open>mark_email_read\<close>. The flag is computed from the name alone when
  the call is classified; in particular it is false for the read-only calls and for a
  completion without function call.
\<close>

theorem shouldRefreshData_by_name:
  assumes "service_processTextInput (Inr resp) parse = Inr r"
  shows "shouldRefreshData_flag r =
           (case cm_function_call resp of
              None \<Rightarrow> False
            | Some fc \<Rightarrow> fc_name fc \<in> {''create_calendar_event'', ''update_calendar_event'',
                           ''delete_calendar_event'', ''send_email'', ''mark_email_read''})"
  using assms
  by (auto simp: service_processTextInput_def shouldRefreshData_def refreshActions_def
        Let_def split: option.splits jsvalue.splits)

text \<open>A read-only call: the flag is false.\<close>

theorem shouldRefreshData_by_name_witness:
  "shouldRefreshData_flag
     (projr (service_processTextInput (Inr get_events_call) parse_empty_object)) = False"
  using shouldRefreshData_by_name
          [of get_events_call parse_empty_object
              "projr (service_processTextInput (Inr get_events_call) parse_empty_object)"]
  by (simp add: service_processTextInput_def shouldRefreshData_def refreshActions_def
        get_events_call_def parse_empty_object_def get_prop_def falsy_str_def)

section \<open>parseDateTime: results\<close>

text \<open>
  Lower-casing does not touch digits, a text without digit has no match, and the
  groups of a match are numbers below 100.
\<close>

lemma is_digit_lower_char: "is_digit (lower_char c) = is_digit c"
  by (auto simp: is_digit_def lower_char_def)

lemma time_match_no_digit:
  "\<forall>c \<in> set s. \<not> is_digit c \<Longrightarrow> time_match (toLowerCase s) = None"
proof -
  assume a: "\<forall>c \<in> set s. \<not> is_digit c"
  have dw: "dropWhile (\<lambda>c. \<not> is_digit c) (toLowerCase s) = []"
    using a by (auto simp: toLowerCase_def is_digit_lower_char)
  show ?thesis unfolding time_match_def dw by simp
qed

lemma parseInt_one: "is_digit a \<Longrightarrow> 0 \<le> parseInt [a] \<and> parseInt [a] \<le> 9"
  by (auto simp: parseInt_def is_digit_def)

lemma parseInt_two:
  "is_digit a \<Longrightarrow> is_digit b \<Longrightarrow> 0 \<le> parseInt [a, b] \<and> parseInt [a, b] \<le> 99"
  by (auto simp: parseInt_def is_digit_def)

lemma match_at_groups:
  assumes "is_digit d" and "match_at (d # ds) = (g1, g2, g3)"
  shows "0 \<le> parseInt g1 \<and> parseInt g1 \<le> 99 \<and>
         0 \<le> parseInt (case g2 of None \<Rightarrow> ''0'' | Some m \<Rightarrow> m) \<and>
         parseInt (case g2 of None \<Rightarrow> ''0'' | Some m \<Rightarrow> m) \<le> 99 \<and>
         (g3 = None \<or> g3 = Some ''am'' \<or> g3 = Some ''pm'')"
proof -
  have g1: "g1 = [d] \<or> (\<exists>d2. is_digit d2 \<and> g1 = [d, d2])"
    using assms(2) by (auto simp: match_at_def Let_def split: list.splits if_splits prod.splits)
  have g2: "g2 = None \<or> (\<exists>a b. is_digit a \<and> is_digit b \<and> g2 = Some [a, b])"
    using assms(2) by (auto simp: match_at_def Let_def split: list.splits if_splits prod.splits)
  have g3: "g3 = None \<or> g3 = Some ''am'' \<or> g3 = Some ''pm''"
    using assms(2) by (auto simp: match_at_def Let_def split: list.splits if_splits prod.splits)
  have z: "0 \<le> parseInt ''0'' \<and> parseInt ''0'' \<le> 99" by (simp add: parseInt_def)
  show ?thesis
    using g1 g2 g3 z parseInt_one [OF assms(1)] parseInt_two [OF assms(1)] parseInt_two
    by (auto split: option.splits)
qed

lemma time_match_groups:
  assumes "time_match s = Some (g1, g2, g3)"
  shows "0 \<le> parseInt g1 \<and> parseInt g1 \<le> 99 \<and>
         0 \<le> parseInt (case g2 of None \<Rightarrow> ''0'' | Some m \<Rightarrow> m) \<and>
         parseInt (case g2 of None \<Rightarrow> ''0'' | Some m \<Rightarrow> m) \<le> 99 \<and>
         (g3 = None \<or> g3 = Some ''am'' \<or> g3 = Some ''pm'')"
proof (cases "dropWhile (\<lambda>c. \<not> is_digit c) s")
  case Nil
  show ?thesis using assms unfolding time_match_def Nil by simp
next
  case (Cons d ds)
  then have "is_digit d" using hd_dropWhile [of "\<lambda>c. \<not> is_digit c" s] by auto
  moreover have "match_at (d # ds) = (g1, g2, g3)"
    using assms unfolding time_match_def Cons by simp
  ultimately show ?thesis by (rule match_at_groups)
qed

lemma day_floor_bounds:
  "x - msPerDay < (x div msPerDay) * msPerDay \<and> (x div msPerDay) * msPerDay \<le> x"
proof -
  have "x = (x div msPerDay) * msPerDay + x mod msPerDay" by simp
  moreover have "0 \<le> x mod msPerDay \<and> x mod msPerDay < msPerDay" by (simp add: msPerDay_def)
  ultimately show ?thesis by linarith
qed

lemma setHours_bounds:
  assumes "\<bar>t\<bar> \<le> 8600000000000000" and "0 \<le> h" and "h \<le> 111" and "0 \<le> m" and "m \<le> 99"
  shows "\<exists>t'. setHours tz h m (Some t) = Some t' \<and> \<bar>t'\<bar> \<le> 8630000000000000 \<and>
              t' = ((t + tz) div msPerDay) * msPerDay + h * msPerHour + m * msPerMinute - tz"
proof -
  let ?q = "((t + tz) div msPerDay) * msPerDay"
  have b: "t + tz - msPerDay < ?q \<and> ?q \<le> t + tz" by (rule day_floor_bounds)
  have hm: "0 \<le> h * msPerHour + m * msPerMinute \<and> h * msPerHour + m * msPerMinute \<le> 405540000"
    using assms(2-5) by (simp add: msPerHour_def msPerMinute_def)
  have "\<bar>?q + h * msPerHour + m * msPerMinute - tz\<bar> \<le> 8630000000000000"
    using b hm assms(1) by (simp add: msPerDay_def abs_le_iff)
  then show ?thesis by (simp add: setHours_def TimeClip_def)
qed

lemma resolveDate_bounds:
  assumes "\<bar>time_now env\<bar> \<le> 8000000000000000"
  shows "\<exists>d. resolveDate env l = Some d \<and> \<bar>d\<bar> \<le> 8600000000000000 \<and>
             (\<exists>k. 0 \<le> k \<and> k \<le> 7 \<and> d = time_now env + k * msPerDay)"
proof -
  define k where
    "k = (findIndex (\<lambda>day. str_includes l day) days - getDay (tz_offset env) (time_now env) + 7)
           mod 7"
  have k: "0 \<le> k \<and> k \<le> 7" by (simp add: k_def)
  have step: "\<exists>d. setDate_plus j (Some (time_now env)) = Some d \<and> \<bar>d\<bar> \<le> 8600000000000000 \<and>
                 (\<exists>k. 0 \<le> k \<and> k \<le> 7 \<and> d = time_now env + k * msPerDay)"
    if "0 \<le> j" and "j \<le> 7" for j
  proof -
    have "\<bar>time_now env + j * msPerDay\<bar> \<le> 8600000000000000"
      using assms that by (simp add: msPerDay_def abs_le_iff)
    then show ?thesis using that by (auto simp: setDate_plus_def TimeClip_def)
  qed
  have stay: "\<bar>time_now env\<bar> \<le> 8600000000000000 \<and>
              (\<exists>k. 0 \<le> k \<and> k \<le> 7 \<and> time_now env = time_now env + k * msPerDay)"
    using assms by auto
  consider "resolveDate env l = setDate_plus 1 (Some (time_now env))"
    | "resolveDate env l = setDate_plus 7 (Some (time_now env))"
    | "resolveDate env l = setDate_plus k (Some (time_now env))"
    | "resolveDate env l = Some (time_now env)"
    unfolding resolveDate_def Let_def k_def by presburger
  then show ?thesis
  proof cases
    case 1
    then show ?thesis using step [of 1] by simp
  next
    case 2
    then show ?thesis using step [of 7] by simp
  next
    case 3
    then show ?thesis using step [of k] k by simp
  next
    case 4
    then show ?thesis using stay by simp
  qed
qed

text \<open>
  Claim C10. For a clock within the range of \<^verbatim>\<open>Date\<close> (less some days of margin) and
  every input string, \<^verbatim>\<open>parseDateTime\<close> returns an interval whose end is exactly one
  hour (3600000 ms) after its start. A time expression is what the regular expression
  matches, which needs a digit: when the input holds no digit, the start is at 14:00
  local time on the local date that the first part of the function resolved.
\<close>

theorem parseDateTime_one_hour:
  assumes "\<bar>time_now env\<bar> \<le> 8000000000000000"
  shows "\<exists>iv. parseDateTime env s = Inr iv \<and> iv_end iv = iv_start iv + 60 * 60 * 1000 \<and>
           ((\<forall>c \<in> set s. \<not> is_digit c) \<longrightarrow>
              (\<exists>d. resolveDate env (toLowerCase s) = Some d \<and>
                   (iv_start iv + tz_offset env) div msPerDay = (d + tz_offset env) div msPerDay \<and>
                   (iv_start iv + tz_offset env) mod msPerDay = 14 * msPerHour))"
proof -
  obtain d where d: "resolveDate env (toLowerCase s) = Some d" "\<bar>d\<bar> \<le> 8600000000000000"
    using resolveDate_bounds [OF assms] by blast
  define hm where "hm = (case time_match (toLowerCase s) of
       Some (g1, g2, g3) \<Rightarrow>
         (let hours0 = parseInt g1;
              minutes = parseInt (case g2 of None \<Rightarrow> ''0'' | Some m \<Rightarrow> m);
              hours = (if g3 = Some ''pm'' \<and> hours0 \<noteq> 12 then hours0 + 12
                       else if g3 = Some ''am'' \<and> hours0 = 12 then 0 else hours0)
          in (hours, minutes))
     | None \<Rightarrow> (14, 0))"
  obtain h m where hm_eq: "hm = (h, m)" by (cases hm)
  have bounds: "0 \<le> h \<and> h \<le> 111 \<and> 0 \<le> m \<and> m \<le> 99"
  proof (cases "time_match (toLowerCase s)")
    case None
    then show ?thesis using hm_eq by (simp add: hm_def)
  next
    case (Some g)
    obtain g1 g2 g3 where g: "g = (g1, g2, g3)" by (cases g)
    show ?thesis
      using time_match_groups [of "toLowerCase s" g1 g2 g3] Some g hm_eq
      by (auto simp: hm_def Let_def split: if_splits)
  qed
  have start: "(case time_match (toLowerCase s) of
               Some (g1, g2, g3) \<Rightarrow>
                 setHours (tz_offset env)
                   (if g3 = Some ''pm'' \<and> parseInt g1 \<noteq> 12 then parseInt g1 + 12
                    else if g3 = Some ''am'' \<and> parseInt g1 = 12 then 0
                    else parseInt g1)
                   (parseInt (case g2 of None \<Rightarrow> ''0'' | Some m \<Rightarrow> m)) (Some d)
             | None \<Rightarrow> setHours (tz_offset env) 14 0 (Some d)) =
           setHours (tz_offset env) h m (Some d)"
    using hm_eq by (auto simp: hm_def Let_def split: option.splits)
  obtain t' where t': "setHours (tz_offset env) h m (Some d) = Some t'"
      "\<bar>t'\<bar> \<le> 8630000000000000"
      "t' = ((d + tz_offset env) div msPerDay) * msPerDay + h * msPerHour + m * msPerMinute - tz_offset env"
    using setHours_bounds [OF d(2), of h m "tz_offset env"] bounds by blast
  have clip: "TimeClip (t' + 60 * 60 * 1000) = Some (t' + 60 * 60 * 1000)"
    using t'(2) by (simp add: TimeClip_def abs_le_iff)
  have res: "parseDateTime env s = Inr \<lparr>iv_start = t', iv_end = t' + 60 * 60 * 1000\<rparr>"
    unfolding parseDateTime_def Let_def d(1) start t'(1) using clip by simp
  have default: "(\<forall>c \<in> set s. \<not> is_digit c) \<longrightarrow>
      (t' + tz_offset env) div msPerDay = (d + tz_offset env) div msPerDay \<and>
      (t' + tz_offset env) mod msPerDay = 14 * msPerHour"
  proof
    assume nd: "\<forall>c \<in> set s. \<not> is_digit c"
    have "hm = (14, 0)" using time_match_no_digit [OF nd] by (simp add: hm_def)
    then have "h = 14" "m = 0" using hm_eq by auto
    then have eq: "t' + tz_offset env = ((d + tz_offset env) div msPerDay) * msPerDay + 14 * msPerHour"
      using t'(3) by simp
    show "(t' + tz_offset env) div msPerDay = (d + tz_offset env) div msPerDay \<and>
      (t' + tz_offset env) mod msPerDay = 14 * msPerHour"
      unfolding eq by (simp add: msPerDay_def msPerHour_def)
  qed
  show ?thesis using res default d(1) by simp
qed

text \<open>The text \<^verbatim>\<open>Tomorrow\<close> on Tuesday 2023-11-14: Wednesday 14:00 to 15:00.\<close>

lemma toLowerCase_Tomorrow: "toLowerCase ''Tomorrow'' = ''tomorrow''"
  by code_simp

lemma resolveDate_tomorrow:
  "resolveDate (env_with intent_untitled calendar_down) ''tomorrow'' = Some 1700086400000"
  by (simp add: resolveDate_def env_with_def setDate_plus_def TimeClip_def msPerDay_def)

lemma time_match_tomorrow: "time_match ''tomorrow'' = None"
  by (simp add: time_match_def is_digit_def)

theorem parseDateTime_one_hour_witness:
  "parseDateTime (env_with intent_untitled calendar_down) ''Tomorrow'' =
     Inr \<lparr>iv_start = 1700056800000, iv_end = 1700060400000\<rparr>"
  using parseDateTime_one_hour [of "env_with intent_untitled calendar_down" "''Tomorrow''"]
  by (simp add: toLowerCase_Tomorrow resolveDate_tomorrow time_match_tomorrow
        parseDateTime_def setHours_def TimeClip_def msPerDay_def msPerHour_def
        msPerMinute_def Let_def)
     (simp add: env_with_def)

end
